theory Spec2Isabelle
  imports Main "HOL-Library.Word"
begin

section \<open>JavaScript strings\<close>

text \<open>
  The program is one React component, \<^verbatim>\<open>App\<close> in \<^verbatim>\<open>src/index.tsx\<close>. Its strings are
  JavaScript strings: sequences of 16-bit code units. A literal of the source is written
  \<open>js ''...''\<close>.
\<close>

type_synonym jstring = "16 word list"

definition js :: "string \<Rightarrow> jstring" where
  "js s = map of_char s"

text \<open>
  \<^verbatim>\<open>String.prototype.trim\<close> removes leading and trailing white space and line
  terminators (ECMAScript: TAB, VT, FF, SP, NBSP, ZWNBSP, the space separators of
  Unicode, LF, CR, LS, PS).
\<close>

definition is_white_space :: "16 word \<Rightarrow> bool" where
  "is_white_space c \<longleftrightarrow>
     c = 0x09 \<or> c = 0x0A \<or> c = 0x0B \<or> c = 0x0C \<or> c = 0x0D \<or> c = 0x20 \<or> c = 0xA0 \<or>
     c = 0x1680 \<or> (0x2000 \<le> c \<and> c \<le> 0x200A) \<or> c = 0x2028 \<or> c = 0x2029 \<or>
     c = 0x202F \<or> c = 0x205F \<or> c = 0x3000 \<or> c = 0xFEFF"

definition trim :: "jstring \<Rightarrow> jstring" where
  "trim s = rev (dropWhile is_white_space (rev (dropWhile is_white_space s)))"

text \<open>
  \<^verbatim>\<open>String.prototype.toLowerCase\<close>, on the letters A to Z; other code units are returned
  as they are. ECMAScript also maps the capital letters outside ASCII, and only one of
  them to a string of ASCII units, the Kelvin sign to \<^verbatim>\<open>k\<close>. The function's one use is
  the key of a lookup none of whose keys has a \<^verbatim>\<open>k\<close> or a unit outside ASCII, so the
  lookup finds the same with either.
\<close>

definition to_lower_unit :: "16 word \<Rightarrow> 16 word" where
  "to_lower_unit c = (if 0x41 \<le> c \<and> c \<le> 0x5A then c + 0x20 else c)"

definition toLowerCase :: "jstring \<Rightarrow> jstring" where
  "toLowerCase s = map to_lower_unit s"

text \<open>
  \<^verbatim>\<open>s.split(sep)\<close> for a separator of one code unit: the segments between the
  separators, at least one. \<^verbatim>\<open>Array.prototype.pop\<close> returns the last element, or
  \<^verbatim>\<open>undefined\<close> (\<open>None\<close>) on an empty array.
\<close>

fun split_on :: "16 word \<Rightarrow> jstring \<Rightarrow> jstring list" where
  "split_on sep [] = [[]]"
| "split_on sep (c # cs) =
     (if c = sep then [] # split_on sep cs
      else (case split_on sep cs of
              [] \<Rightarrow> [[c]]
            | seg # segs \<Rightarrow> (c # seg) # segs))"

definition array_pop :: "'a list \<Rightarrow> 'a option" where
  "array_pop xs = (if xs = [] then None else Some (last xs))"

section \<open>JSON.parse\<close>

text \<open>
  \<^verbatim>\<open>JSON.parse\<close> is the platform's; it is modelled after the JSON grammar (ECMA-404) as a
  lexer followed by a recursive-descent parser. \<open>None\<close> is the \<^verbatim>\<open>SyntaxError\<close> it throws.
  A number is the double nearest to its literal: the integer it is (\<open>JInt\<close>), the
  fraction \<open>m / 2 ^ k\<close> with \<open>m\<close> odd and \<open>k\<close> positive (\<open>JDyadic m k\<close>), minus zero, or
  an infinity (\<open>JInfinity True\<close> is the negative one). An object is the list of its
  properties in the order of their first occurrence, a repeated key keeping its last
  value (the program reads properties by name, never in order).
\<close>

datatype json =
    JNull
  | JBool bool
  | JInt int
  | JDyadic int nat
  | JNegZero
  | JInfinity bool
  | JString jstring
  | JArray "json list"
  | JObject "(jstring \<times> json) list"

subsection \<open>Strings\<close>

definition is_json_ws :: "16 word \<Rightarrow> bool" where
  "is_json_ws c \<longleftrightarrow> c = 0x20 \<or> c = 0x09 \<or> c = 0x0A \<or> c = 0x0D"

definition is_digit :: "16 word \<Rightarrow> bool" where
  "is_digit c \<longleftrightarrow> 0x30 \<le> c \<and> c \<le> 0x39"

definition hex_value :: "16 word \<Rightarrow> 16 word option" where
  "hex_value c =
     (if 0x30 \<le> c \<and> c \<le> 0x39 then Some (c - 0x30)
      else if 0x41 \<le> c \<and> c \<le> 0x46 then Some (c - 0x37)
      else if 0x61 \<le> c \<and> c \<le> 0x66 then Some (c - 0x57)
      else None)"

definition hex4 :: "16 word \<Rightarrow> 16 word \<Rightarrow> 16 word \<Rightarrow> 16 word \<Rightarrow> 16 word option" where
  "hex4 a b c d =
     (case (hex_value a, hex_value b, hex_value c, hex_value d) of
        (Some h1, Some h2, Some h3, Some h4) \<Rightarrow> Some (0x1000 * h1 + 0x100 * h2 + 0x10 * h3 + h4)
      | _ \<Rightarrow> None)"

definition escape_unit :: "16 word \<Rightarrow> 16 word option" where
  "escape_unit e =
     (if e = 0x22 then Some 0x22
      else if e = 0x5C then Some 0x5C
      else if e = 0x2F then Some 0x2F
      else if e = 0x62 then Some 0x08
      else if e = 0x66 then Some 0x0C
      else if e = 0x6E then Some 0x0A
      else if e = 0x72 then Some 0x0D
      else if e = 0x74 then Some 0x09
      else None)"

definition cons_unit :: "16 word \<Rightarrow> (jstring \<times> jstring) option \<Rightarrow> (jstring \<times> jstring) option" where
  "cons_unit c r = map_option (\<lambda>(s, rest). (c # s, rest)) r"

fun scan_string :: "jstring \<Rightarrow> (jstring \<times> jstring) option" where
  "scan_string [] = None"
| "scan_string (c # cs) =
     (if c = 0x22 then Some ([], cs)
      else if c = 0x5C then
        (case cs of
           [] \<Rightarrow> None
         | e # es \<Rightarrow>
             if e = 0x75 then
               (case es of
                  h1 # h2 # h3 # h4 # rest \<Rightarrow>
                    (case hex4 h1 h2 h3 h4 of
                       None \<Rightarrow> None
                     | Some u \<Rightarrow> cons_unit u (scan_string rest))
                | _ \<Rightarrow> None)
             else
               (case escape_unit e of
                  None \<Rightarrow> None
                | Some u \<Rightarrow> cons_unit u (scan_string es)))
      else if c < 0x20 then None
      else cons_unit c (scan_string cs))"

lemma scan_string_shorter: "scan_string cs = Some (s, rest) \<Longrightarrow> length rest < length cs"
proof (induction cs arbitrary: s rule: scan_string.induct)
  case 1
  then show ?case by simp
next
  case (2 c cs)
  show ?case
  proof (cases "c = 0x22")
    case True
    with "2.prems" show ?thesis by simp
  next
    case nq: False
    show ?thesis
    proof (cases "c = 0x5C")
      case True
      with nq "2.prems" "2.IH"(1,2) show ?thesis
        by (fastforce simp: cons_unit_def split: if_splits list.splits option.splits)
    next
      case False
      with nq "2.prems" "2.IH"(3) show ?thesis
        by (fastforce simp: cons_unit_def split: if_splits)
    qed
  qed
qed

subsection \<open>Numbers\<close>

text \<open>
  The value of a literal with digits \<open>M\<close> and decimal exponent \<open>s\<close> is \<open>M * 10 ^ s\<close>, a
  fraction \<open>num / den\<close>. Its double is found as IEEE 754 has it: \<open>p\<close> is the exponent of the
  last place (52 below the binary exponent of the value, and no less than -1074), the
  value is divided by \<open>2 ^ p\<close> and rounded to the nearest integer, to the even one at a
  tie; a result of \<open>2 ^ 1024\<close> or more is an infinity.
\<close>

function bit_length :: "int \<Rightarrow> nat" where
  "bit_length n = (if n \<le> 0 then 0 else Suc (bit_length (n div 2)))"
  by pat_completeness auto
termination
  by (relation "measure nat") auto

declare bit_length.simps [simp del]

definition floor_log2_from :: "int \<Rightarrow> int \<Rightarrow> int \<Rightarrow> int" where
  "floor_log2_from num den e =
     (if (if 0 \<le> e then den * 2 ^ nat e \<le> num else den \<le> num * 2 ^ nat (- e))
      then e else e - 1)"

definition floor_log2 :: "int \<Rightarrow> int \<Rightarrow> int" where
  "floor_log2 num den = floor_log2_from num den (int (bit_length num) - int (bit_length den))"

definition nearest_even :: "int \<Rightarrow> int \<Rightarrow> int \<Rightarrow> int" where
  "nearest_even m r b =
     (if 2 * r < b then m
      else if b < 2 * r then m + 1
      else if even m then m else m + 1)"

definition round_half_even :: "int \<Rightarrow> int \<Rightarrow> int" where
  "round_half_even a b = nearest_even (a div b) (a mod b) b"

function dyadic :: "int \<Rightarrow> nat \<Rightarrow> json" where
  "dyadic m k =
     (if k = 0 then JInt m
      else if even m then dyadic (m div 2) (k - 1)
      else JDyadic m k)"
  by pat_completeness auto
termination
  by (relation "measure snd") auto

declare dyadic.simps [simp del]

definition signed :: "bool \<Rightarrow> int \<Rightarrow> int" where
  "signed neg m = (if neg then - m else m)"

definition zero_of :: "bool \<Rightarrow> json" where
  "zero_of neg = (if neg then JNegZero else JInt 0)"

definition pack_double :: "bool \<Rightarrow> int \<Rightarrow> int \<Rightarrow> json" where
  "pack_double neg p m =
     (if 971 < p \<or> (p = 971 \<and> 2 ^ 53 \<le> m) then JInfinity neg
      else if m = 0 then zero_of neg
      else if 0 \<le> p then JInt (signed neg (m * 2 ^ nat p))
      else dyadic (signed neg m) (nat (- p)))"

definition round_at :: "bool \<Rightarrow> int \<Rightarrow> int \<Rightarrow> int \<Rightarrow> json" where
  "round_at neg num den p =
     pack_double neg p
       (if 0 \<le> p then round_half_even num (den * 2 ^ nat p)
        else round_half_even (num * 2 ^ nat (- p)) den)"

definition nearest_double :: "bool \<Rightarrow> int \<Rightarrow> int \<Rightarrow> json" where
  "nearest_double neg num den = round_at neg num den (max (floor_log2 num den) (- 1022) - 52)"

definition double_of_decimal :: "bool \<Rightarrow> int \<Rightarrow> int \<Rightarrow> json" where
  "double_of_decimal neg M s =
     (if M \<le> 0 then zero_of neg
      else if 0 \<le> s then nearest_double neg (M * 10 ^ nat s) 1
      else nearest_double neg M (10 ^ nat (- s)))"

text \<open>
  The literal: an optional minus, the integer part (a zero, or digits that do not start
  with one), an optional fraction, an optional exponent.
\<close>

definition digits_value :: "jstring \<Rightarrow> int" where
  "digits_value ds = foldl (\<lambda>n d. 10 * n + uint (d - 0x30)) 0 ds"

definition scan_int :: "jstring \<Rightarrow> jstring option" where
  "scan_int cs =
     (case cs of
        [] \<Rightarrow> None
      | c # r \<Rightarrow>
          if c = 0x30 then Some r
          else if is_digit c then Some (dropWhile is_digit r)
          else None)"

definition scan_digits1 :: "jstring \<Rightarrow> jstring option" where
  "scan_digits1 cs =
     (case cs of
        [] \<Rightarrow> None
      | c # r \<Rightarrow> if is_digit c then Some (dropWhile is_digit r) else None)"

definition scan_frac :: "jstring \<Rightarrow> jstring option" where
  "scan_frac cs =
     (case cs of
        [] \<Rightarrow> Some []
      | c # r \<Rightarrow> if c = 0x2E then scan_digits1 r else Some cs)"

definition scan_exp :: "jstring \<Rightarrow> jstring option" where
  "scan_exp cs =
     (case cs of
        [] \<Rightarrow> Some []
      | c # r \<Rightarrow>
          if c = 0x65 \<or> c = 0x45 then
            (case r of
               [] \<Rightarrow> None
             | s # r' \<Rightarrow> if s = 0x2B \<or> s = 0x2D then scan_digits1 r' else scan_digits1 r)
          else Some cs)"

definition is_negative :: "jstring \<Rightarrow> bool" where
  "is_negative cs = (case cs of [] \<Rightarrow> False | c # _ \<Rightarrow> c = 0x2D)"

definition number_body :: "jstring \<Rightarrow> jstring" where
  "number_body cs = (if is_negative cs then drop 1 cs else cs)"

definition consumed :: "jstring \<Rightarrow> jstring \<Rightarrow> jstring" where
  "consumed cs rest = take (length cs - length rest) cs"

definition exponent_value :: "jstring \<Rightarrow> int" where
  "exponent_value ex =
     (case ex of
        [] \<Rightarrow> 0
      | e # r \<Rightarrow>
          (case r of
             [] \<Rightarrow> 0
           | s # ds \<Rightarrow>
               if s = 0x2D then - digits_value ds
               else if s = 0x2B then digits_value ds
               else digits_value r))"

text \<open>
  \<open>frac\<close> is the fraction with its point and \<open>ex\<close> the exponent with its letter, each empty
  when the literal has none.
\<close>

definition number_value :: "bool \<Rightarrow> jstring \<Rightarrow> jstring \<Rightarrow> jstring \<Rightarrow> json" where
  "number_value neg ds frac ex =
     double_of_decimal neg (digits_value (ds @ drop 1 frac))
       (exponent_value ex - int (length (drop 1 frac)))"

definition scan_number :: "jstring \<Rightarrow> (json \<times> jstring) option" where
  "scan_number cs =
     (case scan_int (number_body cs) of
        None \<Rightarrow> None
      | Some r1 \<Rightarrow>
          (case scan_frac r1 of
             None \<Rightarrow> None
           | Some r2 \<Rightarrow>
               (case scan_exp r2 of
                  None \<Rightarrow> None
                | Some r3 \<Rightarrow>
                    Some (number_value (is_negative cs) (consumed (number_body cs) r1)
                            (consumed r1 r2) (consumed r2 r3),
                          r3))))"

lemma scan_digits1_shorter: "scan_digits1 cs = Some r \<Longrightarrow> length r < length cs"
  by (auto simp: scan_digits1_def less_Suc_eq_le length_dropWhile_le split: list.splits if_splits)

lemma scan_int_shorter: "scan_int cs = Some r \<Longrightarrow> length r < length cs"
  by (auto simp: scan_int_def less_Suc_eq_le length_dropWhile_le split: list.splits if_splits)

lemma scan_frac_shorter: "scan_frac cs = Some r \<Longrightarrow> length r \<le> length cs"
  by (auto simp: scan_frac_def split: list.splits if_splits dest!: scan_digits1_shorter)

lemma scan_exp_shorter: "scan_exp cs = Some r \<Longrightarrow> length r \<le> length cs"
  by (auto simp: scan_exp_def split: list.splits if_splits dest!: scan_digits1_shorter)

lemma scan_number_shorter: "scan_number cs = Some (n, r) \<Longrightarrow> length r < length cs"
  by (auto simp: scan_number_def number_body_def split: if_splits option.splits
      dest!: scan_int_shorter scan_frac_shorter scan_exp_shorter)

subsection \<open>Tokens\<close>

datatype token =
    TLBrace | TRBrace | TLBracket | TRBracket | TColon | TComma
  | TString jstring | TNumber json | TTrue | TFalse | TNull

definition cons_token :: "token \<Rightarrow> token list option \<Rightarrow> token list option" where
  "cons_token t r = map_option ((#) t) r"

function lex :: "jstring \<Rightarrow> token list option" where
  "lex [] = Some []"
| "lex (c # cs) =
     (if is_json_ws c then lex cs
      else if c = 0x7B then cons_token TLBrace (lex cs)
      else if c = 0x7D then cons_token TRBrace (lex cs)
      else if c = 0x5B then cons_token TLBracket (lex cs)
      else if c = 0x5D then cons_token TRBracket (lex cs)
      else if c = 0x3A then cons_token TColon (lex cs)
      else if c = 0x2C then cons_token TComma (lex cs)
      else if c = 0x22 then
        (case scan_string cs of
           None \<Rightarrow> None
         | Some (s, rest) \<Rightarrow> cons_token (TString s) (lex rest))
      else if c = 0x2D \<or> is_digit c then
        (case scan_number (c # cs) of
           None \<Rightarrow> None
         | Some (n, rest) \<Rightarrow> cons_token (TNumber n) (lex rest))
      else if take 4 (c # cs) = js ''true'' then cons_token TTrue (lex (drop 3 cs))
      else if take 5 (c # cs) = js ''false'' then cons_token TFalse (lex (drop 4 cs))
      else if take 4 (c # cs) = js ''null'' then cons_token TNull (lex (drop 3 cs))
      else None)"
  by pat_completeness auto
termination
  by (relation "measure length")
     (auto simp: less_Suc_eq_le dest!: scan_string_shorter scan_number_shorter)

text \<open>The second equation of \<open>lex\<close> is one long case distinction; it is unfolded on request only.\<close>

declare lex.simps [simp del]

fun set_property :: "jstring \<Rightarrow> json \<Rightarrow> (jstring \<times> json) list \<Rightarrow> (jstring \<times> json) list" where
  "set_property k v [] = [(k, v)]"
| "set_property k v ((k', v') # ps) =
     (if k' = k then (k, v) # ps else (k', v') # set_property k v ps)"

definition make_object :: "(jstring \<times> json) list \<Rightarrow> json" where
  "make_object members = JObject (foldl (\<lambda>obj (k, v). set_property k v obj) [] members)"

fun parse_value :: "token list \<Rightarrow> (json \<times> token list) option"
  and parse_elements :: "token list \<Rightarrow> (json list \<times> token list) option"
  and parse_members :: "token list \<Rightarrow> ((jstring \<times> json) list \<times> token list) option"
where
  "parse_value [] = None"
| "parse_value (TNull # ts) = Some (JNull, ts)"
| "parse_value (TTrue # ts) = Some (JBool True, ts)"
| "parse_value (TFalse # ts) = Some (JBool False, ts)"
| "parse_value (TNumber n # ts) = Some (n, ts)"
| "parse_value (TString s # ts) = Some (JString s, ts)"
| "parse_value (TLBracket # ts) =
     (case ts of
        TRBracket # rest \<Rightarrow> Some (JArray [], rest)
      | _ \<Rightarrow> map_option (\<lambda>(vs, rest). (JArray vs, rest)) (parse_elements ts))"
| "parse_value (TLBrace # ts) =
     (case ts of
        TRBrace # rest \<Rightarrow> Some (JObject [], rest)
      | _ \<Rightarrow> map_option (\<lambda>(ms, rest). (make_object ms, rest)) (parse_members ts))"
| "parse_value (TRBrace # ts) = None"
| "parse_value (TRBracket # ts) = None"
| "parse_value (TColon # ts) = None"
| "parse_value (TComma # ts) = None"
| "parse_elements ts =
     (case parse_value ts of
        None \<Rightarrow> None
      | Some (v, rest) \<Rightarrow>
          (case rest of
             TComma # rest' \<Rightarrow>
               if length rest' < length ts
               then map_option (\<lambda>(vs, r). (v # vs, r)) (parse_elements rest')
               else None
           | TRBracket # rest' \<Rightarrow> Some ([v], rest')
           | _ \<Rightarrow> None))"
| "parse_members [] = None"
| "parse_members [t] = None"
| "parse_members (TString k # TColon # ts) =
     (case parse_value ts of
        None \<Rightarrow> None
      | Some (v, rest) \<Rightarrow>
          (case rest of
             TComma # rest' \<Rightarrow>
               if length rest' < length ts
               then map_option (\<lambda>(ms, r). ((k, v) # ms, r)) (parse_members rest')
               else None
           | TRBrace # rest' \<Rightarrow> Some ([(k, v)], rest')
           | _ \<Rightarrow> None))"
| "parse_members (t # t' # ts) = None"

text \<open>
  The equation of \<open>parse_elements\<close> has no pattern on its left, so it is used on request
  only.
\<close>

declare parse_elements.simps [simp del]

definition JSON_parse :: "jstring \<Rightarrow> json option" where
  "JSON_parse text =
     (case lex text of
        None \<Rightarrow> None
      | Some ts \<Rightarrow>
          (case parse_value ts of
             Some (v, []) \<Rightarrow> Some v
           | _ \<Rightarrow> None))"

section \<open>The component's state\<close>

text \<open>
  The state of \<^verbatim>\<open>App\<close>, but for the colour theme, which nothing here depends on.
  The language slot is typed \<^verbatim>\<open>string\<close> in the source, but \<^verbatim>\<open>handleFileChange\<close> can
  store two other values in it (see below): a \<^verbatim>\<open>String\<close> object and
  \<^verbatim>\<open>Object.prototype\<close>.
\<close>

datatype lang_value =
    LangString jstring
  | LangStringObject jstring
  | LangObjectPrototype

text \<open>
  The value of \<^verbatim>\<open>result\<close> is whatever \<^verbatim>\<open>JSON.parse\<close> returned, so it is a JSON value;
  \<open>JNull\<close> is \<^verbatim>\<open>null\<close>, the initial value. \<open>None\<close> is \<^verbatim>\<open>null\<close> for \<^verbatim>\<open>error\<close>.
\<close>

record app_state =
  code :: jstring
  language :: lang_value
  isLoading :: bool
  result :: json
  error :: "jstring option"

definition initial_state :: app_state where
  "initial_state =
     \<lparr>code = js '''', language = LangString (js ''javascript''), isLoading = False,
      result = JNull, error = None\<rparr>"

section \<open>Language detection on upload\<close>

text \<open>
  \<^verbatim>\<open>langMap\<close> is an object literal. \<^verbatim>\<open>langMap[extension]\<close> finds its own properties
  and, as for every object, those it inherits from \<^verbatim>\<open>Object.prototype\<close>:
  \<^verbatim>\<open>constructor\<close> (the function \<^verbatim>\<open>Object\<close>), \<^verbatim>\<open>__proto__\<close> (the prototype itself)
  and the built-in methods.
\<close>

definition langMap :: "(jstring \<times> jstring) list" where
  "langMap =
     [(js ''js'', js ''javascript''),
      (js ''py'', js ''python''),
      (js ''ts'', js ''typescript''),
      (js ''java'', js ''java''),
      (js ''cs'', js ''csharp''),
      (js ''cpp'', js ''cpp''),
      (js ''go'', js ''go''),
      (js ''rs'', js ''rust'')]"

datatype lookup =
    Own jstring
  | InheritedConstructor
  | InheritedProto
  | InheritedMethod
  | Absent

definition prototype_methods :: "jstring list" where
  "prototype_methods =
     [js ''hasOwnProperty'', js ''isPrototypeOf'', js ''propertyIsEnumerable'',
      js ''toLocaleString'', js ''toString'', js ''valueOf'',
      js ''__defineGetter__'', js ''__defineSetter__'',
      js ''__lookupGetter__'', js ''__lookupSetter__'']"

definition langMap_get :: "jstring \<Rightarrow> lookup" where
  "langMap_get key =
     (case map_of langMap key of
        Some l \<Rightarrow> Own l
      | None \<Rightarrow>
          if key = js ''constructor'' then InheritedConstructor
          else if key = js ''__proto__'' then InheritedProto
          else if key \<in> set prototype_methods then InheritedMethod
          else Absent)"

text \<open>
  \<^verbatim>\<open>handleFileChange\<close>, the part that sets the language, for a file of the given name
  (without a file the handler returns at once; reading the file's text is an event of
  the page, below):
  \<^verbatim>\<open>
    const extension = file.name.split('.').pop()?.toLowerCase();
    if (extension && langMap[extension]) { setLanguage(langMap[extension]); }
  \<close>
  An empty string is falsy. React's state setter stores the value it is given, except a
  function, which it calls on the previous state: \<^verbatim>\<open>setLanguage(Object)\<close> stores
  \<^verbatim>\<open>Object(previous)\<close>, a \<^verbatim>\<open>String\<close> object for a string and the object itself for an
  object. A built-in method would be called the same way; that call is not modelled
  (\<open>None\<close>) and \<open>handleFileChange_total\<close> shows that it never happens, every method's
  name having a capital letter.
\<close>

definition handleFileChange :: "jstring \<Rightarrow> app_state \<Rightarrow> app_state option" where
  "handleFileChange name st =
     (case map_option toLowerCase (array_pop (split_on 0x2E name)) of
        None \<Rightarrow> Some st
      | Some extension \<Rightarrow>
          if extension = [] then Some st
          else (case langMap_get extension of
                  Own l \<Rightarrow> if l = [] then Some st else Some (st\<lparr>language := LangString l\<rparr>)
                | InheritedConstructor \<Rightarrow>
                    Some (st\<lparr>language :=
                      (case language st of LangString s \<Rightarrow> LangStringObject s | v \<Rightarrow> v)\<rparr>)
                | InheritedProto \<Rightarrow> Some (st\<lparr>language := LangObjectPrototype\<rparr>)
                | InheritedMethod \<Rightarrow> None
                | Absent \<Rightarrow> Some st))"

section \<open>The analysis request\<close>

text \<open>
  The prompt is a template literal; \<^verbatim>\<open>${language}\<close> and \<^verbatim>\<open>${code}\<close> are replaced by the
  values converted to strings. The literal's own line breaks are line feeds.
\<close>

definition lang_text :: "lang_value \<Rightarrow> jstring" where
  "lang_text l =
     (case l of
        LangString s \<Rightarrow> s
      | LangStringObject s \<Rightarrow> s
      | LangObjectPrototype \<Rightarrow> js ''[object Object]'')"

definition buildPrompt :: "lang_value \<Rightarrow> jstring \<Rightarrow> jstring" where
  "buildPrompt lang source =
     js ''\<newline>'' @
     js ''        You are an expert code reviewer. Analyze the following '' @ lang_text lang @
     js '' code for errors, code smells, performance issues, and best practice violations. Provide:\<newline>'' @
     js ''        1. An overall code quality score from 0 to 100.\<newline>'' @
     js ''        2. A list of specific issues found, including the line number, a description of the issue, and a suggested fix.\<newline>'' @
     js ''        3. An optimized version of the entire code block.\<newline>'' @
     js ''        4. A summary of the findings in plain English.\<newline>'' @
     js ''\<newline>'' @
     js ''        Code to review:\<newline>'' @
     js ''        ```'' @ lang_text lang @ js ''\<newline>'' @
     js ''        '' @ source @ js ''\<newline>'' @
     js ''        ```\<newline>'' @
     js ''      ''"

definition empty_input_error :: jstring where
  "empty_input_error = js ''Please enter some code to analyze.''"

definition analysis_error :: jstring where
  "analysis_error =
     js ''An error occurred while analyzing the code. Please check your API key and try again.''"

definition file_read_error :: jstring where
  "file_read_error = js ''Failed to read the uploaded file.''"

text \<open>
  \<^verbatim>\<open>analyzeCode\<close> is an asynchronous function with one suspension point, the call of
  the model. \<open>analyzeCode_begin\<close> is the part that runs when it is invoked: it returns the
  new state and the prompt it has sent, if any. Its first argument tells whether
  \<^verbatim>\<open>new GoogleGenAI(...)\<close> returns (it throws, for one, on a missing API key); a throw is
  caught by the function's own \<^verbatim>\<open>catch\<close> and \<^verbatim>\<open>finally\<close>.
\<close>

definition catch_finally :: "app_state \<Rightarrow> app_state" where
  "catch_finally st = st\<lparr>error := Some analysis_error\<rparr>\<lparr>isLoading := False\<rparr>"

definition analyzeCode_begin :: "bool \<Rightarrow> app_state \<Rightarrow> app_state \<times> jstring option" where
  "analyzeCode_begin client_ok st =
     (if trim (code st) = [] then (st\<lparr>error := Some empty_input_error\<rparr>, None)
      else
        (let st' = st\<lparr>isLoading := True\<rparr>\<lparr>result := JNull\<rparr>\<lparr>error := None\<rparr>
         in if client_ok then (st', Some (buildPrompt (language st) (code st)))
            else (catch_finally st', None)))"

text \<open>
  The model's answer: the call is rejected, or it resolves to a response whose
  \<^verbatim>\<open>text\<close> is a string or \<^verbatim>\<open>undefined\<close> (on which \<^verbatim>\<open>.trim()\<close> throws).
  \<open>analyzeCode_settle\<close> is the rest of \<^verbatim>\<open>analyzeCode\<close>, run on the state of that moment.
\<close>

datatype adapter_outcome =
    Rejected
  | Resolved "jstring option"

definition analyzeCode_settle :: "adapter_outcome \<Rightarrow> app_state \<Rightarrow> app_state" where
  "analyzeCode_settle outcome st =
     (case outcome of
        Rejected \<Rightarrow> catch_finally st
      | Resolved None \<Rightarrow> catch_finally st
      | Resolved (Some text) \<Rightarrow>
          (case JSON_parse (trim text) of
             None \<Rightarrow> catch_finally st
           | Some parsedResult \<Rightarrow> st\<lparr>result := parsedResult\<rparr>\<lparr>isLoading := False\<rparr>))"

text \<open>
  One whole call against a stub of the model, a function from the prompt to the outcome:
  the final state and the prompts the stub has received.
\<close>

definition analyzeCode ::
  "bool \<Rightarrow> (jstring \<Rightarrow> adapter_outcome) \<Rightarrow> app_state \<Rightarrow> app_state \<times> jstring list" where
  "analyzeCode client_ok adapter st =
     (case analyzeCode_begin client_ok st of
        (st', None) \<Rightarrow> (st', [])
      | (st', Some prompt) \<Rightarrow> (analyzeCode_settle (adapter prompt) st', [prompt]))"

section \<open>The page\<close>

text \<open>
  What a user can do on the page, and what the environment does in answer. The analyze
  button is rendered with \<^verbatim>\<open>disabled={isLoading || !code.trim()}\<close>: a click on a disabled
  button calls nothing. \<open>in_flight\<close> holds the prompts sent to the model and not yet
  answered; any of them may be answered next.

  The events are taken whatever the state holds. In the program a stored result can make
  the next render throw (a parsed value with no \<^verbatim>\<open>issues\<close>, for one, at
  \<^verbatim>\<open>result.issues.length\<close>); React then unmounts \<^verbatim>\<open>App\<close> and no further event reaches
  it. The page of this model goes on instead, so its runs are the runs of the program and
  more: what is proved of every run below holds of every run of the program.
\<close>

record page =
  app :: app_state
  in_flight :: "jstring list"

datatype event =
    EditCode jstring
  | SelectLanguage jstring
  | UploadFile jstring
  | FileLoaded jstring
  | FileFailed
  | ClickAnalyze bool
  | ModelAnswers nat adapter_outcome

definition analyze_disabled :: "app_state \<Rightarrow> bool" where
  "analyze_disabled st \<longleftrightarrow> isLoading st \<or> trim (code st) = []"

definition invoke_analyzeCode :: "bool \<Rightarrow> page \<Rightarrow> page" where
  "invoke_analyzeCode client_ok p =
     (case analyzeCode_begin client_ok (app p) of
        (st', None) \<Rightarrow> p\<lparr>app := st'\<rparr>
      | (st', Some prompt) \<Rightarrow> p\<lparr>app := st', in_flight := in_flight p @ [prompt]\<rparr>)"

definition page_step :: "page \<Rightarrow> event \<Rightarrow> page" where
  "page_step p e =
     (case e of
        EditCode text \<Rightarrow> p\<lparr>app := (app p)\<lparr>code := text\<rparr>\<rparr>
      | SelectLanguage l \<Rightarrow> p\<lparr>app := (app p)\<lparr>language := LangString l\<rparr>\<rparr>
      | UploadFile name \<Rightarrow>
          (case handleFileChange name (app p) of None \<Rightarrow> p | Some st' \<Rightarrow> p\<lparr>app := st'\<rparr>)
      | FileLoaded text \<Rightarrow> p\<lparr>app := (app p)\<lparr>code := text\<rparr>\<rparr>
      | FileFailed \<Rightarrow> p\<lparr>app := (app p)\<lparr>error := Some file_read_error\<rparr>\<rparr>
      | ClickAnalyze client_ok \<Rightarrow>
          if analyze_disabled (app p) then p else invoke_analyzeCode client_ok p
      | ModelAnswers i outcome \<Rightarrow>
          if i < length (in_flight p)
          then p\<lparr>app := analyzeCode_settle outcome (app p),
                 in_flight := take i (in_flight p) @ drop (Suc i) (in_flight p)\<rparr>
          else p)"

definition initial_page :: page where
  "initial_page = \<lparr>app = initial_state, in_flight = []\<rparr>"

definition run :: "event list \<Rightarrow> page" where
  "run es = foldl page_step initial_page es"

section \<open>The schema of the specification\<close>

text \<open>
  The shape the specification gives an analysis result (its Schema Definition), and the
  reading of a JSON value as such a result: every required field present, with the
  primitive kind the schema names. The program has no such check; these definitions
  state what the specification means by a response that conforms.
\<close>

record AnalysisIssue =
  line :: int
  issue :: jstring
  suggestion :: jstring

record AnalysisResult =
  score :: int
  summary :: jstring
  issues :: "AnalysisIssue list"
  optimizedCode :: jstring


















section \<open>Names for the statements\<close>

text \<open>
  The lines of a text, the prompt's first eight lines for a language written \<open>l\<close>, a stub
  of the model that gives one answer whatever the prompt, the round-trip scenario of the
  specification (source, response text, expected result), a second response, and the
  invariants of the page.
\<close>

definition lines_of :: "jstring \<Rightarrow> jstring list" where
  "lines_of s = split_on 0x0A s"

definition prompt_intro :: "jstring \<Rightarrow> jstring" where
  "prompt_intro l =
     js ''\<newline>'' @
     js ''        You are an expert code reviewer. Analyze the following '' @ l @
     js '' code for errors, code smells, performance issues, and best practice violations. Provide:\<newline>'' @
     js ''        1. An overall code quality score from 0 to 100.\<newline>'' @
     js ''        2. A list of specific issues found, including the line number, a description of the issue, and a suggested fix.\<newline>'' @
     js ''        3. An optimized version of the entire code block.\<newline>'' @
     js ''        4. A summary of the findings in plain English.\<newline>'' @
     js ''\<newline>'' @
     js ''        Code to review:''"

definition stub :: "adapter_outcome \<Rightarrow> jstring \<Rightarrow> adapter_outcome" where
  "stub outcome prompt = outcome"

definition add_source :: jstring where
  "add_source = js ''def add(a,b):\<newline>  return a+b''"

definition add_response :: jstring where
  \<open>add_response =
     js ''{"score": 92, "summary": "Clean simple function.", "issues": [], "optimizedCode": "def add(a: int, b: int) -> int:'' @
     [0x5C] @ js ''n    return a + b"}''\<close>

definition add_result :: json where
  "add_result =
     JObject
       [(js ''score'', JInt 92),
        (js ''summary'', JString (js ''Clean simple function.'')),
        (js ''issues'', JArray []),
        (js ''optimizedCode'',
         JString (js ''def add(a: int, b: int) -> int:\<newline>    return a + b''))]"










definition single_flight :: "page \<Rightarrow> bool" where
  "single_flight p \<longleftrightarrow>
     length (in_flight p) \<le> 1 \<and> (isLoading (app p) \<longleftrightarrow> in_flight p \<noteq> [])"

definition failure_clean :: "page \<Rightarrow> bool" where
  "failure_clean p \<longleftrightarrow>
     (in_flight p \<noteq> [] \<longrightarrow> result (app p) = JNull \<and> error (app p) \<noteq> Some analysis_error) \<and>
     (error (app p) = Some analysis_error \<longrightarrow> result (app p) = JNull) \<and>
     (error (app p) = None \<or> error (app p) = Some analysis_error \<or>
      error (app p) = Some file_read_error)"

section \<open>Facts about strings\<close>

lemma js_Nil: "js [] = []"
  by (simp add: js_def)

lemma js_Cons: "js (c # cs) = of_char c # js cs"
  by (simp add: js_def)

lemma js_append: "js (a @ b) = js a @ js b"
  by (simp add: js_def)

lemmas js_simps = js_Nil js_Cons

lemma split_on_not_Nil: "split_on sep s \<noteq> []"
  by (induction s) (auto split: list.splits)

lemma split_on_sep_append:
  "split_on sep (a @ sep # b) = split_on sep a @ split_on sep b"
proof (induction a)
  case Nil
  show ?case by simp
next
  case (Cons c a)
  then show ?case
    using split_on_not_Nil [of sep a]
    by (cases "split_on sep a") auto
qed

lemma split_on_no_sep: "sep \<notin> set a \<Longrightarrow> split_on sep a = [a]"
  by (induction a) auto

lemma split_on_prefix:
  "sep \<notin> set a \<Longrightarrow> split_on sep (a @ b) = (a @ hd (split_on sep b)) # tl (split_on sep b)"
proof (induction a)
  case Nil
  then show ?case using split_on_not_Nil [of sep b] by simp
next
  case (Cons c a)
  then show ?case by auto
qed

lemma length_split_on: "length (split_on sep s) = Suc (length (filter (\<lambda>c. c = sep) s))"
proof (induction s)
  case Nil
  show ?case by simp
next
  case (Cons c s)
  then show ?case by (cases "split_on sep s") auto
qed

subsection \<open>Lower case\<close>

lemma capital_add:
  assumes "0x41 \<le> c \<and> c \<le> (0x5A :: 16 word)"
  shows "unat (c + 0x20) = unat c + 32"
proof -
  from assms have "unat c \<le> 90" by (simp add: word_le_nat_alt)
  then show ?thesis by (simp add: unat_word_ariths)
qed

lemma to_lower_unit_not_capital: "\<not> (0x41 \<le> to_lower_unit c \<and> to_lower_unit c \<le> 0x5A)"
proof (cases "0x41 \<le> c \<and> c \<le> 0x5A")
  case True
  then have "unat c \<ge> 65" by (simp add: word_le_nat_alt)
  with capital_add [OF True] have "\<not> c + 0x20 \<le> 0x5A" by (simp add: word_le_nat_alt)
  with True show ?thesis by (simp add: to_lower_unit_def)
next
  case False
  then show ?thesis by (auto simp add: to_lower_unit_def)
qed

lemma to_lower_unit_idem: "to_lower_unit (to_lower_unit c) = to_lower_unit c"
  using to_lower_unit_not_capital [of c] by (simp add: to_lower_unit_def [of "to_lower_unit c"])

lemma to_lower_unit_dot: "to_lower_unit c = 0x2E \<longleftrightarrow> c = 0x2E"
proof (cases "0x41 \<le> c \<and> c \<le> 0x5A")
  case True
  then have "unat c \<ge> 65" by (simp add: word_le_nat_alt)
  then have "unat (c + 0x20) \<noteq> unat (0x2E :: 16 word)" "unat c \<noteq> unat (0x2E :: 16 word)"
    using capital_add [OF True] by simp_all
  then have "c + 0x20 \<noteq> 0x2E" "c \<noteq> 0x2E" by auto
  with True show ?thesis by (simp add: to_lower_unit_def del: add_numeral_left)
next
  case False
  then show ?thesis by (auto simp add: to_lower_unit_def)
qed

lemma toLowerCase_idem: "toLowerCase (toLowerCase s) = toLowerCase s"
  by (simp add: toLowerCase_def to_lower_unit_idem)

lemma toLowerCase_no_capital:
  "c \<in> set (toLowerCase s) \<Longrightarrow> \<not> (0x41 \<le> c \<and> c \<le> 0x5A)"
  using to_lower_unit_not_capital by (auto simp: toLowerCase_def)

lemma split_on_toLowerCase:
  "split_on 0x2E (toLowerCase s) = map toLowerCase (split_on 0x2E s)"
proof (induction s)
  case Nil
  show ?case by (simp add: toLowerCase_def)
next
  case (Cons c cs)
  then show ?case
    using split_on_not_Nil [of "0x2E" cs]
    by (cases "split_on 0x2E cs") (simp_all add: toLowerCase_def to_lower_unit_dot)
qed

lemma extension_toLowerCase:
  "map_option toLowerCase (array_pop (split_on 0x2E (toLowerCase name))) =
   map_option toLowerCase (array_pop (split_on 0x2E name))"
  by (simp add: array_pop_def split_on_toLowerCase split_on_not_Nil last_map toLowerCase_idem)

section \<open>Facts about JSON.parse\<close>




text \<open>The facts that evaluate the parser and a call on a given text.\<close>

lemmas number_eval =
  double_of_decimal_def nearest_double_def round_at_def pack_double_def zero_of_def signed_def
  round_half_even_def nearest_even_def floor_log2_def floor_log2_from_def bit_length.simps
  dyadic.simps

lemmas json_eval =
  is_json_ws_def is_digit_def hex_value_def hex4_def escape_unit_def cons_unit_def
  digits_value_def scan_int_def scan_digits1_def scan_frac_def scan_exp_def scan_number_def
  is_negative_def number_body_def consumed_def exponent_value_def number_value_def number_eval
  cons_token_def lex.simps make_object_def parse_elements.simps JSON_parse_def

lemmas call_eval =
  analyzeCode_def analyzeCode_begin_def analyzeCode_settle_def catch_finally_def stub_def
  trim_def is_white_space_def

lemma JSON_parse_examples:
  \<open>JSON_parse (js ''null'') = Some JNull\<close>
  \<open>JSON_parse (js '' [1, -2.5e3, "a", true] '') =
     Some (JArray [JInt 1, JInt (- 2500), JString (js ''a''), JBool True])\<close>
  \<open>JSON_parse (js ''[92.0, 9.2e1, 0.1, -0, 12345678901234567890]'') =
     Some (JArray [JInt 92, JInt 92, JDyadic 3602879701896397 55, JNegZero,
                   JInt 12345678901234567168])\<close>
  \<open>JSON_parse (js ''{"a": 1, "b": {}, "a": [false]}'') =
     Some (JObject [(js ''a'', JArray [JBool False]), (js ''b'', JObject [])])\<close>
  \<open>JSON_parse (js ''"x'' @ [0x5C] @ js ''u0041'' @ [0x5C] @ js ''n"'') =
     Some (JString (js ''xA\<newline>''))\<close>
  \<open>JSON_parse (js '''') = None\<close>
  \<open>JSON_parse (js ''[1, 2,]'') = None\<close>
  \<open>JSON_parse (js ''{"a": 1} x'') = None\<close>
  \<open>JSON_parse (js ''01'') = None\<close>
  \<open>JSON_parse (js ''"a\<newline>b"'') = None\<close>
  by (simp_all add: json_eval js_simps)

lemma JSON_parse_not_json: "JSON_parse (trim (js ''not json'')) = None"
  by (simp add: trim_def is_white_space_def json_eval js_simps)

lemma JSON_parse_add_response: "JSON_parse (trim add_response) = Some add_result"
  by (simp add: add_response_def add_result_def trim_def is_white_space_def json_eval js_simps)

section \<open>Facts about the written responses\<close>

text \<open>
  \<^verbatim>\<open>JSON.parse\<close> reads back what the writer has written: every string, whatever the
  writer's choice of escapes, every integer that a double holds exactly, and with them
  every written result, whatever the white space between its tokens.
\<close>

subsection \<open>Strings\<close>







subsection \<open>Integers\<close>














subsection \<open>Tokens\<close>













subsection \<open>Values\<close>













section \<open>Facts about the upload\<close>

lemma prototype_methods_capital:
  "key \<in> set prototype_methods \<Longrightarrow> \<exists>c \<in> set key. 0x41 \<le> c \<and> c \<le> 0x5A"
  by (auto simp: prototype_methods_def js_simps)

lemma langMap_get_lower: "langMap_get (toLowerCase s) \<noteq> InheritedMethod"
  using prototype_methods_capital [of "toLowerCase s"] toLowerCase_no_capital [of _ s]
  by (auto simp: langMap_get_def split: option.splits)

lemma handleFileChange_total: "handleFileChange name st \<noteq> None"
  using langMap_get_lower [of "last (split_on 0x2E name)"]
  by (auto simp: handleFileChange_def array_pop_def split_on_not_Nil split: lookup.splits)

lemma handleFileChange_fields:
  "handleFileChange name st = Some st' \<Longrightarrow>
     code st' = code st \<and> isLoading st' = isLoading st \<and> result st' = result st \<and>
     error st' = error st"
  by (auto simp: handleFileChange_def split: option.splits if_splits lookup.splits)

text \<open>
  The table, as the code reads it: an extension that is a key of \<^verbatim>\<open>langMap\<close> selects its
  language whatever the selection was, and any other extension but \<^verbatim>\<open>constructor\<close> and
  \<^verbatim>\<open>__proto__\<close> leaves the selection as it is.
\<close>

lemma handleFileChange_own:
  assumes "map_of langMap (toLowerCase (last (split_on 0x2E name))) = Some l"
  shows "handleFileChange name st = Some (st\<lparr>language := LangString l\<rparr>)"
proof -
  from assms have "(toLowerCase (last (split_on 0x2E name)), l) \<in> set langMap"
    by (rule map_of_SomeD)
  then have "toLowerCase (last (split_on 0x2E name)) \<noteq> [] \<and> l \<noteq> []"
    by (auto simp: langMap_def js_simps)
  with assms show ?thesis
    by (simp add: handleFileChange_def array_pop_def split_on_not_Nil langMap_get_def)
qed

lemma handleFileChange_absent:
  assumes "map_of langMap (toLowerCase (last (split_on 0x2E name))) = None"
    and "toLowerCase (last (split_on 0x2E name)) \<noteq> js ''constructor''"
    and "toLowerCase (last (split_on 0x2E name)) \<noteq> js ''__proto__''"
  shows "handleFileChange name st = Some st"
  using assms langMap_get_lower [of "last (split_on 0x2E name)"]
  by (auto simp: handleFileChange_def array_pop_def split_on_not_Nil langMap_get_def
      split: lookup.splits if_splits)

lemma handleFileChange_examples:
  "handleFileChange (js ''solution.rs'') st = Some (st\<lparr>language := LangString (js ''rust'')\<rparr>)"
  "handleFileChange (js ''notes.txt'') st = Some st"
  by (simp_all add: handleFileChange_def array_pop_def toLowerCase_def to_lower_unit_def
      langMap_get_def langMap_def prototype_methods_def js_simps)

section \<open>Facts about the prompt\<close>

lemma buildPrompt_structure:
  "buildPrompt (LangString l) source =
     prompt_intro l @ js ''\<newline>        ```'' @ l @ js ''\<newline>        '' @ source @
     js ''\<newline>        ```\<newline>      ''"
  by (simp add: buildPrompt_def prompt_intro_def lang_text_def js_def)

lemma buildPrompt_lang_text:
  "buildPrompt lang source = buildPrompt (LangString (lang_text lang)) source"
  by (simp add: buildPrompt_def lang_text_def)

lemma lines_prompt_intro:
  assumes "0x0A \<notin> set l"
  shows "length (lines_of (prompt_intro l)) = 8"
proof -
  from assms have "filter (\<lambda>c. c = 0x0A) l = []"
    by (auto simp: filter_empty_conv)
  then show ?thesis
    by (simp only: lines_of_def length_split_on) (simp add: prompt_intro_def js_simps)
qed

lemma lines_of_buildPrompt:
  assumes "0x0A \<notin> set l"
  shows "lines_of (buildPrompt (LangString l) source) =
           lines_of (prompt_intro l) @
           (js ''        ```'' @ l) # (js ''        '' @ hd (lines_of source)) #
           tl (lines_of source) @ [js ''        ```'', js ''      '']"
proof -
  have indent: "0x0A \<notin> set (js ''        '')"
    by (simp add: js_simps)
  from assms have fence: "0x0A \<notin> set (js ''        ```'' @ l)"
    by (simp add: js_simps)
  have "buildPrompt (LangString l) source =
          prompt_intro l @ 0x0A # (js ''        ```'' @ l) @ 0x0A #
          (js ''        '' @ source) @ 0x0A # js ''        ```'' @ 0x0A # js ''      ''"
    by (simp add: buildPrompt_structure) (simp add: js_simps)
  then have "lines_of (buildPrompt (LangString l) source) =
          lines_of (prompt_intro l) @ lines_of (js ''        ```'' @ l) @
          lines_of (js ''        '' @ source) @ lines_of (js ''        ```'') @
          lines_of (js ''      '')"
    by (simp only: lines_of_def split_on_sep_append)
  moreover have "lines_of (js ''        ```'' @ l) = [js ''        ```'' @ l]"
    unfolding lines_of_def by (rule split_on_no_sep [OF fence])
  moreover have "lines_of (js ''        '' @ source) =
      (js ''        '' @ hd (lines_of source)) # tl (lines_of source)"
    unfolding lines_of_def by (rule split_on_prefix [OF indent])
  moreover have "lines_of (js ''        ```'') = [js ''        ```'']"
    "lines_of (js ''      '') = [js ''      '']"
    unfolding lines_of_def by (rule split_on_no_sep, simp add: js_simps)+
  ultimately show ?thesis by simp
qed

lemma lines_of_add_source: "lines_of add_source = [js ''def add(a,b):'', js ''  return a+b'']"
  by (simp add: add_source_def lines_of_def js_simps)

section \<open>Facts about the page\<close>

lemma analysis_error_neq: "analysis_error \<noteq> empty_input_error"
  by (simp add: analysis_error_def empty_input_error_def js_simps)

lemma file_read_error_neq:
  "file_read_error \<noteq> analysis_error" "file_read_error \<noteq> empty_input_error"
  by (simp_all add: file_read_error_def analysis_error_def empty_input_error_def js_simps)

lemma add_source_not_blank: "trim add_source \<noteq> []"
  by (simp add: add_source_def trim_def is_white_space_def js_simps)

lemma analyzeCode_settle_not_loading: "\<not> isLoading (analyzeCode_settle outcome st)"
  by (auto simp: analyzeCode_settle_def catch_finally_def
      split: adapter_outcome.splits option.splits)

text \<open>
  A call that gets past the test of the input clears the result before anything else, so
  when it ends with an error no result stands beside it.
\<close>

lemma analyzeCode_failure_no_result:
  "trim (code st) \<noteq> [] \<Longrightarrow> error (fst (analyzeCode client_ok adapter st)) \<noteq> None \<Longrightarrow>
     result (fst (analyzeCode client_ok adapter st)) = JNull"
  by (auto simp: analyzeCode_def analyzeCode_begin_def analyzeCode_settle_def catch_finally_def
      Let_def split: adapter_outcome.splits option.splits if_splits)

text \<open>On the page a click with blank code calls nothing: the button is disabled.\<close>

lemma click_blank_code:
  "trim (code (app p)) = [] \<Longrightarrow> page_step p (ClickAnalyze client_ok) = p"
  by (simp add: page_step_def analyze_disabled_def)

lemma single_flight_initial: "single_flight initial_page"
  by (simp add: single_flight_def initial_page_def initial_state_def)

lemma single_flight_step: "single_flight p \<Longrightarrow> single_flight (page_step p e)"
proof (cases e)
  case (UploadFile name)
  assume "single_flight p"
  with UploadFile show ?thesis
    by (auto simp: page_step_def single_flight_def split: option.splits
        dest!: handleFileChange_fields)
next
  case (ClickAnalyze ok)
  assume "single_flight p"
  with ClickAnalyze show ?thesis
    by (auto simp: page_step_def single_flight_def analyze_disabled_def invoke_analyzeCode_def
        analyzeCode_begin_def catch_finally_def Let_def)
next
  case (ModelAnswers i outcome)
  assume "single_flight p"
  with ModelAnswers show ?thesis
    by (auto simp: page_step_def single_flight_def analyzeCode_settle_not_loading)
qed (auto simp: page_step_def single_flight_def)

lemma run_snoc: "run (es @ [e]) = page_step (run es) e"
  by (simp add: run_def)

lemma single_flight_run: "single_flight (run es)"
proof (induction es rule: rev_induct)
  case Nil
  show ?case by (simp add: run_def single_flight_initial)
next
  case (snoc e es)
  then show ?case by (simp only: run_snoc single_flight_step)
qed

text \<open>
  On the page a failed analysis holds no result: the request clears the result when it
  starts, nothing sets one while it is in flight, and the answer of a request that fails
  sets none. The error of the empty input is never set, its only setter being behind the
  disabled button.
\<close>

lemma failure_clean_initial: "failure_clean initial_page"
  by (simp add: failure_clean_def initial_page_def initial_state_def)

lemma failure_clean_step:
  assumes "single_flight p" and "failure_clean p"
  shows "failure_clean (page_step p e)"
proof (cases e)
  case (EditCode t)
  with assms(2) show ?thesis by (simp add: page_step_def failure_clean_def)
next
  case (SelectLanguage l)
  with assms(2) show ?thesis by (simp add: page_step_def failure_clean_def)
next
  case (UploadFile name)
  with assms(2) show ?thesis
    by (auto simp: page_step_def failure_clean_def split: option.splits
        dest!: handleFileChange_fields)
next
  case (FileLoaded t)
  with assms(2) show ?thesis by (simp add: page_step_def failure_clean_def)
next
  case FileFailed
  with assms(2) show ?thesis
    by (simp add: page_step_def failure_clean_def file_read_error_neq)
next
  case (ClickAnalyze ok)
  with assms show ?thesis
    by (auto simp: page_step_def failure_clean_def single_flight_def analyze_disabled_def
        invoke_analyzeCode_def analyzeCode_begin_def catch_finally_def Let_def)
next
  case (ModelAnswers i outcome)
  show ?thesis
  proof (cases "i < length (in_flight p)")
    case False
    with ModelAnswers assms(2) show ?thesis by (simp add: page_step_def)
  next
    case True
    with assms(1) obtain q where q: "in_flight p = [q]" and i: "i = 0"
      by (cases "in_flight p") (auto simp: single_flight_def)
    with assms(2) have clean: "result (app p) = JNull" "error (app p) \<noteq> Some analysis_error"
      "error (app p) = None \<or> error (app p) = Some file_read_error"
      by (auto simp: failure_clean_def)
    from ModelAnswers q i have step: "page_step p e =
        p\<lparr>app := analyzeCode_settle outcome (app p), in_flight := []\<rparr>"
      by (simp add: page_step_def)
    from clean show ?thesis
      unfolding step
      by (auto simp: failure_clean_def analyzeCode_settle_def catch_finally_def
          split: adapter_outcome.splits option.splits)
  qed
qed

lemma failure_clean_run: "failure_clean (run es)"
proof (induction es rule: rev_induct)
  case Nil
  show ?case by (simp add: run_def failure_clean_initial)
next
  case (snoc e es)
  then show ?case by (simp only: run_snoc failure_clean_step [OF single_flight_run])
qed

text \<open>
  The tests of \<^verbatim>\<open>isLoading\<close> and of the blank code that the page relies on are the
  button's, not the function's. Invoked twice in a row, or on a state that holds a result
  and a blank code, neither of which any run of the page does, \<^verbatim>\<open>analyzeCode\<close> sends a
  second prompt, and sets the error of the empty input beside the result.
\<close>

lemma invoke_analyzeCode_twice:
  "isLoading (fst (analyzeCode_begin True (initial_state\<lparr>code := js ''x''\<rparr>))) \<and>
   in_flight (invoke_analyzeCode True (invoke_analyzeCode True
      \<lparr>app = initial_state\<lparr>code := js ''x''\<rparr>, in_flight = []\<rparr>)) =
     [buildPrompt (LangString (js ''javascript'')) (js ''x''),
      buildPrompt (LangString (js ''javascript'')) (js ''x'')]"
  by (simp add: invoke_analyzeCode_def analyzeCode_begin_def trim_def is_white_space_def js_simps
      initial_state_def)

lemma analyzeCode_blank_beside_result:
  "analyzeCode True (stub Rejected)
      (initial_state\<lparr>code := js '' '', result := add_result\<rparr>) =
     (initial_state\<lparr>code := js '' '', result := add_result,
        error := Some empty_input_error\<rparr>, [])"
  by (simp add: call_eval js_simps initial_state_def)

text \<open>
  The message of a file that could not be read is the upload's, not a failed analysis;
  it shares the slot \<^verbatim>\<open>error\<close> and can stand beside the result of an earlier analysis.
\<close>

lemma file_error_beside_result:
  "error (app (run [EditCode add_source, ClickAnalyze True,
      ModelAnswers 0 (Resolved (Some add_response)), FileFailed])) = Some file_read_error \<and>
   result (app (run [EditCode add_source, ClickAnalyze True,
      ModelAnswers 0 (Resolved (Some add_response)), FileFailed])) = add_result"
  by (simp add: run_def page_step_def initial_page_def initial_state_def analyze_disabled_def
      invoke_analyzeCode_def analyzeCode_begin_def analyzeCode_settle_def
      add_source_not_blank JSON_parse_add_response)

section \<open>The claims\<close>

text \<open>
  Claim C1, as the code has it. The code has no validation step: a response whose trimmed
  text does not parse as JSON, or that has no text, ends the call with the one error
  message and no result, and
  every response that parses is stored as the result exactly as parsed, with no error,
  whatever fields it has and whatever its score. Nothing is rejected for a missing field
  or a score outside 0..100, and nothing is clamped.
\<close>

theorem analyzeCode_response_handling:
  "trim (code st) \<noteq> [] \<Longrightarrow>
     fst (analyzeCode True (stub (Resolved (Some text))) st) =
       (case JSON_parse (trim text) of
          None \<Rightarrow> st\<lparr>isLoading := False, result := JNull, error := Some analysis_error\<rparr>
        | Some v \<Rightarrow> st\<lparr>isLoading := False, result := v, error := None\<rparr>) \<and>
     fst (analyzeCode True (stub (Resolved None)) st) =
       st\<lparr>isLoading := False, result := JNull, error := Some analysis_error\<rparr>"
  by (simp add: analyzeCode_def analyzeCode_begin_def analyzeCode_settle_def catch_finally_def
      stub_def Let_def split: option.splits)

theorem analyzeCode_response_handling_witness:
  "trim (code (initial_state\<lparr>code := js ''x''\<rparr>)) \<noteq> [] \<and>
   fst (analyzeCode True (stub (Resolved (Some (js ''not json'')))) (initial_state\<lparr>code := js ''x''\<rparr>)) =
     initial_state\<lparr>code := js ''x'', error := Some analysis_error\<rparr>"
proof -
  have nonblank: "trim (code (initial_state\<lparr>code := js ''x''\<rparr>)) \<noteq> []"
    by (simp add: trim_def is_white_space_def js_simps)
  from analyzeCode_response_handling [OF nonblank, of "js ''not json''"] nonblank
  show ?thesis by (simp add: JSON_parse_not_json initial_state_def)
qed

text \<open>
  Against C1 as it is written: a response with the score 150, and a response that has
  a score and nothing else, both become the result, and no error is set.
\<close>

theorem analyzeCode_accepts_invalid_response:
  \<open>fst (analyzeCode True
      (stub (Resolved (Some
        (js ''{"score": 150, "summary": "s", "issues": [], "optimizedCode": ""}''))))
      (initial_state\<lparr>code := js ''x''\<rparr>)) =
     initial_state\<lparr>code := js ''x'',
       result := JObject [(js ''score'', JInt 150), (js ''summary'', JString (js ''s'')),
                          (js ''issues'', JArray []), (js ''optimizedCode'', JString [])]\<rparr> \<and>
   fst (analyzeCode True (stub (Resolved (Some (js ''{"score": 50}''))))
      (initial_state\<lparr>code := js ''x''\<rparr>)) =
     initial_state\<lparr>code := js ''x'', result := JObject [(js ''score'', JInt 50)]\<rparr>\<close>
  by (simp add: call_eval json_eval js_simps initial_state_def)

text \<open>
  Claim C2. In every state the page can reach through its events at most one request is
  in flight, and one is in flight exactly when \<^verbatim>\<open>isLoading\<close> holds. While one is, the
  analyze button is disabled, so a click on it starts no second request and changes
  nothing; and the model's answer ends the request: it is applied to the state, nothing
  is left in flight and \<^verbatim>\<open>isLoading\<close> is false.
\<close>

theorem page_single_flight:
  "length (in_flight (run es)) \<le> 1 \<and>
   (isLoading (app (run es)) \<longleftrightarrow> in_flight (run es) \<noteq> []) \<and>
   (in_flight (run es) \<noteq> [] \<longrightarrow>
      page_step (run es) (ClickAnalyze client_ok) = run es \<and>
      page_step (run es) (ModelAnswers 0 outcome) =
        \<lparr>app = analyzeCode_settle outcome (app (run es)), in_flight = []\<rparr> \<and>
      \<not> isLoading (analyzeCode_settle outcome (app (run es))))"
proof -
  have "single_flight (run es)" by (rule single_flight_run)
  then have 1: "length (in_flight (run es)) \<le> 1"
    and 2: "isLoading (app (run es)) \<longleftrightarrow> in_flight (run es) \<noteq> []"
    by (simp_all add: single_flight_def)
  have 3: "page_step (run es) (ClickAnalyze client_ok) = run es"
    if "in_flight (run es) \<noteq> []"
    using that 2 by (simp add: page_step_def analyze_disabled_def)
  have 4: "page_step (run es) (ModelAnswers 0 outcome) =
        \<lparr>app = analyzeCode_settle outcome (app (run es)), in_flight = []\<rparr>"
    if "in_flight (run es) \<noteq> []"
  proof -
    from that 1 obtain q where "in_flight (run es) = [q]"
      by (cases "in_flight (run es)") auto
    then show ?thesis by (simp add: page_step_def)
  qed
  have 5: "\<not> isLoading (analyzeCode_settle outcome (app (run es)))"
    by (rule analyzeCode_settle_not_loading)
  from 1 2 3 4 5 show ?thesis by blast
qed

theorem page_single_flight_witness:
  "in_flight (run [EditCode (js ''x''), ClickAnalyze True]) \<noteq> [] \<and>
   page_step (run [EditCode (js ''x''), ClickAnalyze True]) (ClickAnalyze True) =
     run [EditCode (js ''x''), ClickAnalyze True] \<and>
   in_flight (page_step (run [EditCode (js ''x''), ClickAnalyze True]) (ModelAnswers 0 Rejected)) = []"
proof -
  have busy: "in_flight (run [EditCode (js ''x''), ClickAnalyze True]) \<noteq> []"
    by (simp add: run_def page_step_def initial_page_def initial_state_def analyze_disabled_def
        invoke_analyzeCode_def analyzeCode_begin_def trim_def is_white_space_def js_simps)
  from page_single_flight [of "[EditCode (js ''x''), ClickAnalyze True]" True Rejected] busy
  show ?thesis by simp
qed

text \<open>
  Claim C3. In every state the page can reach, the error of a failed analysis stands
  beside no result, and while a request is in flight there is no result either. The
  error of the empty input is never set: after a success as at any other time, the
  analyze button is disabled while the code is blank. The only other value of \<^verbatim>\<open>error\<close>
  is the message of a file that could not be read, which is the upload's and no failure
  of an analysis. And for every state with a code that is not blank, the states in which
  the button calls \<^verbatim>\<open>analyzeCode\<close>, a call that ends with an error ends with no result,
  whatever the client and the model do.
\<close>

theorem failed_analysis_holds_no_result:
  "(error (app (run es)) = Some analysis_error \<longrightarrow> result (app (run es)) = JNull) \<and>
   (in_flight (run es) \<noteq> [] \<longrightarrow> result (app (run es)) = JNull) \<and>
   error (app (run es)) \<noteq> Some empty_input_error \<and>
   (error (app (run es)) = None \<or> error (app (run es)) = Some analysis_error \<or>
    error (app (run es)) = Some file_read_error) \<and>
   (trim (code st) \<noteq> [] \<and> error (fst (analyzeCode client_ok adapter st)) \<noteq> None \<longrightarrow>
      result (fst (analyzeCode client_ok adapter st)) = JNull)"
proof -
  have clean: "failure_clean (run es)" by (rule failure_clean_run)
  then have 1: "error (app (run es)) = Some analysis_error \<longrightarrow> result (app (run es)) = JNull"
    and 2: "in_flight (run es) \<noteq> [] \<longrightarrow> result (app (run es)) = JNull"
    and 4: "error (app (run es)) = None \<or> error (app (run es)) = Some analysis_error \<or>
      error (app (run es)) = Some file_read_error"
    by (simp_all add: failure_clean_def)
  from 4 have 3: "error (app (run es)) \<noteq> Some empty_input_error"
    using analysis_error_neq file_read_error_neq(2) by auto
  have 5: "trim (code st) \<noteq> [] \<and> error (fst (analyzeCode client_ok adapter st)) \<noteq> None \<longrightarrow>
      result (fst (analyzeCode client_ok adapter st)) = JNull"
    using analyzeCode_failure_no_result [of st client_ok adapter] by blast
  from 1 2 3 4 5 show ?thesis by blast
qed

text \<open>
  C3 at a run: an analysis succeeds and its result is stored; a second one is answered
  with a text that is no JSON, and the state holds the error and no result.
\<close>

theorem failed_analysis_holds_no_result_witness:
  "result (app (run [EditCode add_source, ClickAnalyze True,
      ModelAnswers 0 (Resolved (Some add_response))])) = add_result \<and>
   add_result \<noteq> JNull \<and>
   error (app (run [EditCode add_source, ClickAnalyze True,
      ModelAnswers 0 (Resolved (Some add_response)), ClickAnalyze True,
      ModelAnswers 0 (Resolved (Some (js ''not json'')))])) = Some analysis_error \<and>
   result (app (run [EditCode add_source, ClickAnalyze True,
      ModelAnswers 0 (Resolved (Some add_response)), ClickAnalyze True,
      ModelAnswers 0 (Resolved (Some (js ''not json'')))])) = JNull"
proof -
  have first: "result (app (run [EditCode add_source, ClickAnalyze True,
      ModelAnswers 0 (Resolved (Some add_response))])) = add_result"
    by (simp add: run_def page_step_def initial_page_def initial_state_def analyze_disabled_def
        invoke_analyzeCode_def analyzeCode_begin_def analyzeCode_settle_def
        add_source_not_blank JSON_parse_add_response)
  have populated: "add_result \<noteq> JNull"
    by (simp add: add_result_def)
  have failed: "error (app (run [EditCode add_source, ClickAnalyze True,
      ModelAnswers 0 (Resolved (Some add_response)), ClickAnalyze True,
      ModelAnswers 0 (Resolved (Some (js ''not json'')))])) = Some analysis_error"
    by (simp add: run_def page_step_def initial_page_def initial_state_def analyze_disabled_def
        invoke_analyzeCode_def analyzeCode_begin_def analyzeCode_settle_def catch_finally_def
        add_source_not_blank JSON_parse_add_response JSON_parse_not_json)
  from failed_analysis_holds_no_result [of "[EditCode add_source, ClickAnalyze True,
      ModelAnswers 0 (Resolved (Some add_response)), ClickAnalyze True,
      ModelAnswers 0 (Resolved (Some (js ''not json'')))]"] failed
  have "result (app (run [EditCode add_source, ClickAnalyze True,
      ModelAnswers 0 (Resolved (Some add_response)), ClickAnalyze True,
      ModelAnswers 0 (Resolved (Some (js ''not json'')))])) = JNull"
    by blast
  with first populated failed show ?thesis by blast
qed

text \<open>
  Claim C4. For every code that is empty once trimmed, \<^verbatim>\<open>analyzeCode\<close> sets the error of
  the empty input and does nothing else: no prompt is sent, whatever the model's stub
  and the client.
\<close>

theorem analyzeCode_blank_input:
  "trim (code st) = [] \<Longrightarrow>
     analyzeCode_begin client_ok st = (st\<lparr>error := Some empty_input_error\<rparr>, None) \<and>
     analyzeCode client_ok adapter st = (st\<lparr>error := Some empty_input_error\<rparr>, [])"
  by (simp add: analyzeCode_def analyzeCode_begin_def)

theorem analyzeCode_blank_input_witness:
  "trim (code (initial_state\<lparr>code := js ''  \<newline> '' @ [0x09, 0xA0]\<rparr>)) = [] \<and>
   analyzeCode True (stub (Resolved (Some (js ''{}''))))
       (initial_state\<lparr>code := js ''  \<newline> '' @ [0x09, 0xA0]\<rparr>) =
     (initial_state\<lparr>code := js ''  \<newline> '' @ [0x09, 0xA0], error := Some empty_input_error\<rparr>, [])"
proof -
  have blank: "trim (code (initial_state\<lparr>code := js ''  \<newline> '' @ [0x09, 0xA0]\<rparr>)) = []"
    by (simp add: trim_def is_white_space_def js_simps)
  from analyzeCode_blank_input [OF blank, of True "stub (Resolved (Some (js ''{}'')))"] blank
  show ?thesis by simp
qed

text \<open>
  Claim C5, as the code has it. The code has one message for every failure of a call: a
  response that is the text \<^verbatim>\<open>not json\<close> and a rejected call leave the same state, with
  the same error, so the two cannot be told apart. Only the error of the empty input is
  another message.
\<close>

theorem analyzeCode_failures_share_message:
  "analyzeCode_settle (Resolved (Some (js ''not json''))) st = analyzeCode_settle Rejected st \<and>
   analyzeCode_settle Rejected st = st\<lparr>isLoading := False, error := Some analysis_error\<rparr> \<and>
   analysis_error \<noteq> empty_input_error"
  by (simp add: analysis_error_neq analyzeCode_settle_def catch_finally_def JSON_parse_not_json)

text \<open>
  Against C5 as it is written: the whole call on the text \<^verbatim>\<open>not json\<close> and the whole call
  on a transport fault end in the same state.
\<close>

theorem not_json_same_as_transport_fault:
  "analyzeCode True (stub (Resolved (Some (js ''not json'')))) (initial_state\<lparr>code := js ''x''\<rparr>) =
   analyzeCode True (stub Rejected) (initial_state\<lparr>code := js ''x''\<rparr>)"
  by (simp add: call_eval json_eval js_simps initial_state_def)



text \<open>
  Claim C7, as the code has it. For every language \<open>l\<close> and code, the prompt is the
  eight lines of the instructions, a line with the fence and \<open>l\<close> itself as its tag, the
  code, every code unit of it as it is, and the closing fence; a language that is no
  string is written as JavaScript converts it. When \<open>l\<close> has no line break, line \<open>k\<close> of
  the code is line \<open>9 + k\<close> of the prompt. The code's first line does not stand there as it
  is: the eight spaces of the template's indentation stand before it, and before no
  other line of the code.
\<close>

theorem buildPrompt_embeds_code:
  "buildPrompt (LangString l) source =
     prompt_intro l @ js ''\<newline>        ```'' @ l @ js ''\<newline>        '' @ source @
     js ''\<newline>        ```\<newline>      '' \<and>
   buildPrompt (LangStringObject l) source = buildPrompt (LangString l) source \<and>
   buildPrompt LangObjectPrototype source =
     buildPrompt (LangString (js ''[object Object]'')) source \<and>
   (0x0A \<notin> set l \<longrightarrow>
      lines_of (buildPrompt (LangString l) source) =
        lines_of (prompt_intro l) @
        (js ''        ```'' @ l) # (js ''        '' @ hd (lines_of source)) #
        tl (lines_of source) @ [js ''        ```'', js ''      ''] \<and>
      length (lines_of (prompt_intro l)) = 8 \<and>
      length (lines_of (buildPrompt (LangString l) source)) = 9 + length (lines_of source) + 2 \<and>
      (\<forall>k < length (lines_of source).
         lines_of (buildPrompt (LangString l) source) ! (9 + k) =
           (if k = 0 then js ''        '' else []) @ lines_of source ! k))"
proof (intro conjI impI allI)
  show "buildPrompt (LangString l) source =
     prompt_intro l @ js ''\<newline>        ```'' @ l @ js ''\<newline>        '' @ source @
     js ''\<newline>        ```\<newline>      ''"
    by (rule buildPrompt_structure)
  show "buildPrompt (LangStringObject l) source = buildPrompt (LangString l) source"
    by (simp add: buildPrompt_def lang_text_def)
  show "buildPrompt LangObjectPrototype source =
     buildPrompt (LangString (js ''[object Object]'')) source"
    by (simp add: buildPrompt_def lang_text_def)
next
  assume nl: "0x0A \<notin> set l"
  have ne: "lines_of source \<noteq> []"
    by (simp add: lines_of_def split_on_not_Nil)
  then have len: "Suc (length (tl (lines_of source))) = length (lines_of source)"
    by (cases "lines_of source") simp_all
  show "lines_of (buildPrompt (LangString l) source) =
        lines_of (prompt_intro l) @
        (js ''        ```'' @ l) # (js ''        '' @ hd (lines_of source)) #
        tl (lines_of source) @ [js ''        ```'', js ''      '']"
    by (rule lines_of_buildPrompt [OF nl])
  show "length (lines_of (prompt_intro l)) = 8"
    by (rule lines_prompt_intro [OF nl])
  show "length (lines_of (buildPrompt (LangString l) source)) = 9 + length (lines_of source) + 2"
    using len by (simp add: lines_of_buildPrompt [OF nl] lines_prompt_intro [OF nl])
  fix k
  assume k: "k < length (lines_of source)"
  show "lines_of (buildPrompt (LangString l) source) ! (9 + k) =
           (if k = 0 then js ''        '' else []) @ lines_of source ! k"
  proof (cases k)
    case 0
    with ne show ?thesis
      by (simp add: lines_of_buildPrompt [OF nl] nth_append lines_prompt_intro [OF nl]
          hd_conv_nth)
  next
    case (Suc j)
    with k len have "j < length (tl (lines_of source))" by simp
    with Suc show ?thesis
      by (simp add: lines_of_buildPrompt [OF nl] nth_append lines_prompt_intro [OF nl] nth_tl)
  qed
qed

theorem buildPrompt_embeds_code_witness:
  "0x0A \<notin> set (js ''python'') \<and>
   lines_of add_source = [js ''def add(a,b):'', js ''  return a+b''] \<and>
   lines_of (buildPrompt (LangString (js ''python'')) add_source) ! 8 = js ''        ```python'' \<and>
   lines_of (buildPrompt (LangString (js ''python'')) add_source) ! 9 =
     js ''        def add(a,b):'' \<and>
   lines_of (buildPrompt (LangString (js ''python'')) add_source) ! 10 = js ''  return a+b'' \<and>
   lines_of (buildPrompt (LangString (js ''python'')) add_source) ! 11 = js ''        ```''"
proof -
  have nl: "0x0A \<notin> set (js ''python'')"
    by (simp add: js_simps)
  from buildPrompt_embeds_code [of "js ''python''" add_source] nl
  have eq: "lines_of (buildPrompt (LangString (js ''python'')) add_source) =
        lines_of (prompt_intro (js ''python'')) @
        (js ''        ```'' @ js ''python'') # (js ''        '' @ hd (lines_of add_source)) #
        tl (lines_of add_source) @ [js ''        ```'', js ''      '']"
    and len: "length (lines_of (prompt_intro (js ''python''))) = 8"
    by blast+
  from nl show ?thesis
    by (simp add: eq nth_append len lines_of_add_source js_append [symmetric])
qed

text \<open>
  Against C7 as it is written: the code's first line is \<^verbatim>\<open>def add(a,b):\<close>, and the line
  of the prompt that quotes it begins with eight spaces more, while the second line is
  quoted with the two spaces it has. The quoted block is not the code line for line, and
  its white space is not the code's.
\<close>

theorem buildPrompt_indents_first_line:
  "lines_of add_source = [js ''def add(a,b):'', js ''  return a+b''] \<and>
   take 4 (drop 8 (lines_of (buildPrompt (LangString (js ''python'')) add_source))) =
     [js ''        ```python'', js ''        def add(a,b):'', js ''  return a+b'',
      js ''        ```''] \<and>
   lines_of (buildPrompt (LangString (js ''python'')) add_source) ! 9 \<noteq>
     lines_of add_source ! 0"
proof -
  have nl: "0x0A \<notin> set (js ''python'')"
    by (simp add: js_simps)
  have len: "length (lines_of (prompt_intro (js ''python''))) = 8"
    by (rule lines_prompt_intro [OF nl])
  have differ: "js ''        def add(a,b):'' \<noteq> js ''def add(a,b):''"
    by (simp add: js_simps)
  have eq: "lines_of (buildPrompt (LangString (js ''python'')) add_source) =
      lines_of (prompt_intro (js ''python'')) @
      [js ''        ```python'', js ''        def add(a,b):'', js ''  return a+b'',
       js ''        ```'', js ''      '']"
    by (simp add: lines_of_buildPrompt [OF nl] lines_of_add_source js_append [symmetric])
  show ?thesis
    by (simp add: eq len nth_append lines_of_add_source differ)
qed

text \<open>
  Claim C8, at an input where the code departs from it. \<^verbatim>\<open>__proto__\<close> is no key of the
  table, yet \<^verbatim>\<open>langMap["__proto__"]\<close> is the object's prototype, which is truthy: a file
  named \<^verbatim>\<open>notes.__proto__\<close> replaces the selected language by that object, which the prompt
  then renders as \<^verbatim>\<open>[object Object]\<close>. (The lemmas \<open>handleFileChange_own\<close>,
  \<open>handleFileChange_absent\<close> and \<open>handleFileChange_examples\<close> are the claim on every other
  extension but \<^verbatim>\<open>constructor\<close>.)
\<close>

theorem handleFileChange_inherited_key:
  "handleFileChange (js ''notes.__proto__'') st = Some (st\<lparr>language := LangObjectPrototype\<rparr>) \<and>
   lang_text LangObjectPrototype = js ''[object Object]'' \<and>
   handleFileChange (js ''notes.constructor'') (st\<lparr>language := LangString (js ''go'')\<rparr>) =
     Some (st\<lparr>language := LangStringObject (js ''go'')\<rparr>)"
  by (simp add: handleFileChange_def array_pop_def toLowerCase_def to_lower_unit_def
      langMap_get_def langMap_def prototype_methods_def lang_text_def js_simps)

text \<open>
  Claim C9. The extension is put in lower case before the table is read: a file name and
  the same name in lower case set the language alike, and \<^verbatim>\<open>MAIN.PY\<close> sets it to Python
  as \<^verbatim>\<open>main.py\<close> does.
\<close>

theorem handleFileChange_case_insensitive:
  "handleFileChange name st = handleFileChange (toLowerCase name) st \<and>
   toLowerCase (js ''MAIN.PY'') = js ''main.py'' \<and>
   handleFileChange (js ''MAIN.PY'') st = Some (st\<lparr>language := LangString (js ''python'')\<rparr>) \<and>
   handleFileChange (js ''main.py'') st = Some (st\<lparr>language := LangString (js ''python'')\<rparr>)"
proof (intro conjI)
  show "handleFileChange name st = handleFileChange (toLowerCase name) st"
    by (simp add: handleFileChange_def extension_toLowerCase)
qed (simp_all add: handleFileChange_def array_pop_def toLowerCase_def to_lower_unit_def
      langMap_get_def langMap_def js_simps)

text \<open>
  Claim C10. A call that gets past the test of the input either fails before the model
  is called (the client cannot be made), and then \<^verbatim>\<open>isLoading\<close> is false at once, or
  sets \<^verbatim>\<open>isLoading\<close> and sends its prompt; whatever the model answers then (a rejection,
  a response without text, a text that does not parse, a text that parses), and on
  whatever state the answer arrives, \<^verbatim>\<open>isLoading\<close> is false afterwards.
\<close>

theorem analyzeCode_clears_loading:
  "trim (code st) \<noteq> [] \<Longrightarrow>
     (case analyzeCode_begin client_ok st of
        (st', None) \<Rightarrow> \<not> isLoading st'
      | (st', Some prompt) \<Rightarrow> isLoading st' \<and> \<not> isLoading (analyzeCode_settle outcome st')) \<and>
     \<not> isLoading (analyzeCode_settle outcome st'') \<and>
     \<not> isLoading (fst (analyzeCode client_ok adapter st))"
  by (auto simp: analyzeCode_def analyzeCode_begin_def analyzeCode_settle_def catch_finally_def
      Let_def split: adapter_outcome.splits option.splits)

theorem analyzeCode_clears_loading_witness:
  "trim (code (initial_state\<lparr>code := js ''x''\<rparr>)) \<noteq> [] \<and>
   isLoading (fst (analyzeCode_begin True (initial_state\<lparr>code := js ''x''\<rparr>))) \<and>
   \<not> isLoading (fst (analyzeCode True (stub (Resolved (Some (js ''not json''))))
      (initial_state\<lparr>code := js ''x''\<rparr>))) \<and>
   \<not> isLoading (fst (analyzeCode False (stub Rejected) (initial_state\<lparr>code := js ''x''\<rparr>)))"
proof -
  have nonblank: "trim (code (initial_state\<lparr>code := js ''x''\<rparr>)) \<noteq> []"
    by (simp add: trim_def is_white_space_def js_simps)
  have loading: "isLoading (fst (analyzeCode_begin True (initial_state\<lparr>code := js ''x''\<rparr>)))"
    using nonblank by (simp add: analyzeCode_begin_def)
  from analyzeCode_clears_loading [OF nonblank,
        where client_ok = True and adapter = "stub (Resolved (Some (js ''not json'')))"]
    analyzeCode_clears_loading [OF nonblank,
        where client_ok = False and adapter = "stub Rejected"]
    nonblank loading
  show ?thesis by blast
qed

end
